theory Spec2Isabelle
  imports Complex_Main
begin

section \<open>Values of the device protocol and Python's exceptions\<close>

text \<open>
  The status document is whatever \<open>resp.json()\<close> parsed: a JSON value. Objects are
  association lists read with \<open>map_of\<close> (a parsed Python dict has each key once); the
  protocol itself only carries strings, and a numeric leaf is kept as an integer so that a
  payload of the wrong type can be followed through the code.
\<close>

datatype json =
    JNull
  | JBool bool
  | JInt int
  | JStr string
  | JArr "json list"
  | JObj "(string \<times> json) list"

text \<open>
  The exception classes the code can meet. \<open>ClientError\<close> stands for
  \<open>aiohttp.ClientError\<close> and its subclasses, \<open>TimeoutError\<close> for
  \<open>asyncio.TimeoutError\<close>.
\<close>

datatype exn =
    StopIteration
  | AttributeError
  | TypeError
  | KeyError
  | IndexError
  | ValueError
  | ZeroDivisionError
  | OverflowError
  | ClientError
  | TimeoutError
  | ConfigEntryNotReady

text \<open>Values an entity property hands to the platform: \<open>None\<close>, a number or a string.\<close>

datatype pyval = PNone | PNum rat | PStr string

subsection \<open>Python's operations on parsed JSON\<close>

text \<open>\<open>item.get(key, default)\<close>: only a dict has \<open>get\<close>.\<close>

fun py_get :: "json \<Rightarrow> string \<Rightarrow> json \<Rightarrow> exn + json" where
  "py_get (JObj kvs) key dflt = Inr (case map_of kvs key of None \<Rightarrow> dflt | Some v \<Rightarrow> v)"
| "py_get _ key dflt = Inl AttributeError"

text \<open>
  \<open>for item in node\<close>: a list yields its elements, a dict its keys, a string its
  characters; nothing else is iterable.
\<close>

fun py_iter :: "json \<Rightarrow> exn + json list" where
  "py_iter (JArr xs) = Inr xs"
| "py_iter (JObj kvs) = Inr (map (\<lambda>kv. JStr (fst kv)) kvs)"
| "py_iter (JStr s) = Inr (map (\<lambda>c. JStr [c]) s)"
| "py_iter _ = Inl TypeError"

text \<open>\<open>len(x)\<close>.\<close>

fun py_len :: "json \<Rightarrow> exn + nat" where
  "py_len (JArr xs) = Inr (length xs)"
| "py_len (JObj kvs) = Inr (length kvs)"
| "py_len (JStr s) = Inr (length s)"
| "py_len _ = Inl TypeError"

text \<open>
  \<open>x[i]\<close> for a literal index \<open>i \<ge> 0\<close>: out of range in a list or string is IndexError;
  a parsed JSON dict has string keys only, so an integer key is KeyError.
\<close>

fun py_index :: "json \<Rightarrow> nat \<Rightarrow> exn + json" where
  "py_index (JArr xs) i = (if i < length xs then Inr (xs ! i) else Inl IndexError)"
| "py_index (JStr s) i = (if i < length s then Inr (JStr [s ! i]) else Inl IndexError)"
| "py_index (JObj kvs) i = Inl KeyError"
| "py_index _ i = Inl TypeError"

text \<open>
  \<open>x[key]\<close> for a string key: a dict looks the key up, a list or a string wants an
  integer, the rest cannot be subscripted.
\<close>

fun py_item :: "json \<Rightarrow> string \<Rightarrow> exn + json" where
  "py_item (JObj kvs) key = (case map_of kvs key of None \<Rightarrow> Inl KeyError | Some v \<Rightarrow> Inr v)"
| "py_item _ key = Inl TypeError"

text \<open>Truth value of \<open>if x:\<close>.\<close>

fun py_truthy :: "json \<Rightarrow> bool" where
  "py_truthy JNull = False"
| "py_truthy (JBool b) = b"
| "py_truthy (JInt n) = (n \<noteq> 0)"
| "py_truthy (JStr s) = (s \<noteq> [])"
| "py_truthy (JArr xs) = (xs \<noteq> [])"
| "py_truthy (JObj kvs) = (kvs \<noteq> [])"

text \<open>
  \<open>next(item for item in items if item.get("pn") == seg)\<close>: the generator tests the
  items in order, so an item without \<open>get\<close> in front of the match raises before the match
  is reached; running out of items is StopIteration.
\<close>

fun find_pn :: "json list \<Rightarrow> string \<Rightarrow> exn + json" where
  "find_pn [] seg = Inl StopIteration"
| "find_pn (item # items) seg =
     (case py_get item ''pn'' JNull of
        Inl e \<Rightarrow> Inl e
      | Inr v \<Rightarrow> if v = JStr seg then Inr item else find_pn items seg)"

section \<open>Hex payloads\<close>

text \<open>
  Bytes are numbers below 256. \<open>bytes.fromhex\<close> skips ASCII whitespace between bytes and
  wants two hex digits (either case) per byte, else ValueError; \<open>bytes.hex\<close> writes
  lowercase digits; \<open>int.from_bytes(_, "little")\<close> and \<open>int.to_bytes(n, "little")\<close> put
  the low byte first.
\<close>

definition is_space :: "char \<Rightarrow> bool" where
  "is_space c = (of_char c \<in> {9, 10, 11, 12, 13, 32 :: nat})"

definition hexval :: "char \<Rightarrow> nat option" where
  "hexval c =
     (let n = (of_char c :: nat) in
      if 48 \<le> n \<and> n \<le> 57 then Some (n - 48)
      else if 97 \<le> n \<and> n \<le> 102 then Some (n - 87)
      else if 65 \<le> n \<and> n \<le> 70 then Some (n - 55)
      else None)"

fun fromhex :: "string \<Rightarrow> exn + nat list" where
  "fromhex [] = Inr []"
| "fromhex [c] = (if is_space c then Inr [] else Inl ValueError)"
| "fromhex (c # d # cs) =
     (if is_space c then fromhex (d # cs)
      else case (hexval c, hexval d) of
             (Some h, Some l) \<Rightarrow>
               (case fromhex cs of Inl e \<Rightarrow> Inl e | Inr bs \<Rightarrow> Inr ((16 * h + l) # bs))
           | _ \<Rightarrow> Inl ValueError)"

fun from_bytes :: "nat list \<Rightarrow> nat" where
  "from_bytes [] = 0"
| "from_bytes (b # bs) = b + 256 * from_bytes bs"

fun le_bytes :: "nat \<Rightarrow> nat \<Rightarrow> nat list" where
  "le_bytes 0 n = []"
| "le_bytes (Suc k) n = (n mod 256) # le_bytes k (n div 256)"

definition to_bytes :: "int \<Rightarrow> nat \<Rightarrow> exn + nat list" where
  "to_bytes v len =
     (if v < 0 \<or> 256 ^ len \<le> v then Inl OverflowError else Inr (le_bytes len (nat v)))"

definition hexdigit :: "nat \<Rightarrow> char" where
  "hexdigit n = (if n < 10 then char_of (48 + n) else char_of (87 + n))"

definition bytes_hex :: "nat list \<Rightarrow> string" where
  "bytes_hex bs = concat (map (\<lambda>b. [hexdigit (b div 16), hexdigit (b mod 16)]) bs)"

definition upper_char :: "char \<Rightarrow> char" where
  "upper_char c =
     (let n = (of_char c :: nat) in if 97 \<le> n \<and> n \<le> 122 then char_of (n - 32) else c)"

definition str_upper :: "string \<Rightarrow> string" where
  "str_upper s = map upper_char s"

text \<open>
  \<open>round(x)\<close> on a float rounds half to even. Temperatures and readings are modelled as
  exact rationals; Python's doubles agree with them on every value the protocol's two-byte
  payloads can carry.
\<close>

definition py_round :: "rat \<Rightarrow> int" where
  "py_round x =
     (let f = \<lfloor>x\<rfloor>; d = x - of_int f in
      if d < 1 / 2 then f
      else if 1 / 2 < d then f + 1
      else if even f then f else f + 1)"

section \<open>Telemetry surface: navigation and decoding (sensor.py)\<close>

text \<open>
  The body of the \<open>try\<close> in \<open>_get_by_path\<close>: for each segment, the first item named by
  it, then that item's \<open>pch\<close> (an empty list when it has none).
\<close>

fun navigate :: "json \<Rightarrow> string list \<Rightarrow> exn + json" where
  "navigate node [] = Inr node"
| "navigate node (seg # segs) =
     (case py_iter node of
        Inl e \<Rightarrow> Inl e
      | Inr items \<Rightarrow>
          (case find_pn items seg of
             Inl e \<Rightarrow> Inl e
           | Inr item \<Rightarrow>
               (case py_get item ''pch'' (JArr []) of
                  Inl e \<Rightarrow> Inl e
                | Inr ch \<Rightarrow> navigate ch segs)))"

text \<open>\<open>_get_by_path\<close>: StopIteration, AttributeError and TypeError become \<open>[]\<close>.\<close>

definition get_by_path :: "json \<Rightarrow> string list \<Rightarrow> exn + json" where
  "get_by_path data path_segments =
     (case navigate data path_segments of
        Inr node \<Rightarrow> Inr node
      | Inl e \<Rightarrow>
          if e = StopIteration \<or> e = AttributeError \<or> e = TypeError then Inr (JArr [])
          else Inl e)"

text \<open>
  The body of the \<open>try\<close> in \<open>_parse_hex_to_int\<close>: \<open>bytes.fromhex\<close> of anything but a
  string is TypeError, and a zero scale is ZeroDivisionError.
\<close>

fun decode_hex :: "json \<Rightarrow> int \<Rightarrow> exn + rat" where
  "decode_hex (JStr hexstr) scale =
     (case fromhex hexstr of
        Inl e \<Rightarrow> Inl e
      | Inr bs \<Rightarrow>
          if scale = 0 then Inl ZeroDivisionError
          else Inr (of_nat (from_bytes bs) / of_int scale))"
| "decode_hex _ scale = Inl TypeError"

text \<open>\<open>_parse_hex_to_int\<close>: every exception becomes \<open>None\<close>.\<close>

definition parse_hex_to_int :: "json \<Rightarrow> int \<Rightarrow> pyval" where
  "parse_hex_to_int hexstr scale =
     (case decode_hex hexstr scale of Inl e \<Rightarrow> PNone | Inr v \<Rightarrow> PNum v)"

section \<open>Control surface: encoding the target temperature (climate.py)\<close>

definition MIN_TEMP :: rat where "MIN_TEMP = 16"
definition MAX_TEMP :: rat where "MAX_TEMP = 30"

definition clamp_temp :: "rat \<Rightarrow> rat" where
  "clamp_temp temp =
     (if temp < MIN_TEMP then MIN_TEMP else if MAX_TEMP < temp then MAX_TEMP else temp)"

text \<open>
  Lines 343 to 350 of \<open>async_set_temperature\<close>: clamp, \<open>int(round(temp * 2))\<close>, two
  bytes little-endian unsigned, uppercase hex.
\<close>

definition temperature_hex :: "rat \<Rightarrow> exn + string" where
  "temperature_hex temp =
     (case to_bytes (py_round (clamp_temp temp * 2)) 2 of
        Inl e \<Rightarrow> Inl e
      | Inr raw_bytes \<Rightarrow> Inr (str_upper (bytes_hex raw_bytes)))"

section \<open>Sequencing of calls that may raise\<close>

definition andthen :: "exn + 'a \<Rightarrow> ('a \<Rightarrow> exn + 'b) \<Rightarrow> exn + 'b" where
  "andthen m f = (case m of Inl e \<Rightarrow> Inl e | Inr x \<Rightarrow> f x)"

section \<open>Telemetry surface: the six values (sensor.py)\<close>

text \<open>Python's \<open>str\<close> of an integer, for the f-string of the unknown label.\<close>

function digits_onto :: "nat \<Rightarrow> string \<Rightarrow> string" where
  "digits_onto n acc =
     (if n < 10 then char_of (48 + n) # acc
      else digits_onto (n div 10) (char_of (48 + n mod 10) # acc))"
  by pat_completeness auto
termination
  by (relation "measure fst") auto

definition string_of_nat :: "nat \<Rightarrow> string" where
  "string_of_nat n = digits_onto n []"

definition string_of_int :: "int \<Rightarrow> string" where
  "string_of_int i =
     (if i < 0 then CHR ''-'' # string_of_nat (nat (- i)) else string_of_nat (nat i))"

text \<open>
  \<open>M.get(hexstr, f"Unknown ({hexstr})")\<close> on a table with string keys: a list or a dict
  as key is unhashable (TypeError); any other value that is not a key gives the default,
  into which the f-string has written \<open>str(hexstr)\<close>.
\<close>

fun label_or_unknown :: "(string \<times> string) list \<Rightarrow> json \<Rightarrow> exn + pyval" where
  "label_or_unknown table (JStr hexstr) =
     Inr (PStr (case map_of table hexstr of
                  Some label \<Rightarrow> label
                | None \<Rightarrow> ''Unknown ('' @ hexstr @ '')''))"
| "label_or_unknown table JNull = Inr (PStr ''Unknown (None)'')"
| "label_or_unknown table (JBool b) =
     Inr (PStr (''Unknown ('' @ (if b then ''True'' else ''False'') @ '')''))"
| "label_or_unknown table (JInt i) = Inr (PStr (''Unknown ('' @ string_of_int i @ '')''))"
| "label_or_unknown table _ = Inl TypeError"

definition SENSOR_FAN_SPEED_MAP :: "(string \<times> string) list" where
  "SENSOR_FAN_SPEED_MAP =
     [(''0300'', ''1''), (''0400'', ''2''), (''0500'', ''3''), (''0600'', ''4''),
      (''0700'', ''5''), (''0A00'', ''Auto''), (''0B00'', ''Quiet'')]"

definition SENSOR_MODE_MAP :: "(string \<times> string) list" where
  "SENSOR_MODE_MAP =
     [(''0300'', ''Auto''), (''0200'', ''Cool''), (''0100'', ''Heat''), (''0000'', ''Fan''),
      (''0500'', ''Dry'')]"

definition POWER_MAP :: "(string \<times> string) list" where
  "POWER_MAP = [(''00'', ''Off''), (''01'', ''On'')]"

text \<open>
  \<open>path[i].get("pv", "")\<close>, the read every \<open>_get_value\<close> makes once its guard on
  \<open>path\<close> has passed.
\<close>

definition pv_at :: "json \<Rightarrow> nat \<Rightarrow> exn + json" where
  "pv_at path i = andthen (py_index path i) (\<lambda>item. py_get item ''pv'' (JStr []))"

definition setpoint_get_value :: "json \<Rightarrow> exn + pyval" where
  "setpoint_get_value data =
     andthen (get_by_path data [''e_1002'', ''e_3001'']) (\<lambda>path.
     andthen (py_len path) (\<lambda>n.
       if 3 \<le> n then andthen (pv_at path 2) (\<lambda>pv. Inr (parse_hex_to_int pv 2))
       else Inr PNone))"

definition indoor_temp_get_value :: "json \<Rightarrow> exn + pyval" where
  "indoor_temp_get_value data =
     andthen (get_by_path data [''e_1002'', ''e_A00B'']) (\<lambda>path.
       if py_truthy path then andthen (pv_at path 0) (\<lambda>pv. Inr (parse_hex_to_int pv 1))
       else Inr PNone)"

definition indoor_humidity_get_value :: "json \<Rightarrow> exn + pyval" where
  "indoor_humidity_get_value data =
     andthen (get_by_path data [''e_1002'', ''e_A00B'']) (\<lambda>path.
     andthen (py_len path) (\<lambda>n.
       if 1 < n then andthen (pv_at path 1) (\<lambda>pv. Inr (parse_hex_to_int pv 1))
       else Inr PNone))"

definition fan_speed_get_value :: "json \<Rightarrow> exn + pyval" where
  "fan_speed_get_value data =
     andthen (get_by_path data [''e_1002'', ''e_3001'']) (\<lambda>path.
     andthen (py_len path) (\<lambda>n.
       if 9 \<le> n then andthen (pv_at path 8) (label_or_unknown SENSOR_FAN_SPEED_MAP)
       else Inr PNone))"

definition mode_get_value :: "json \<Rightarrow> exn + pyval" where
  "mode_get_value data =
     andthen (get_by_path data [''e_1002'', ''e_3001'']) (\<lambda>path.
       if py_truthy path then andthen (pv_at path 0) (label_or_unknown SENSOR_MODE_MAP)
       else Inr PNone)"

definition power_get_value :: "json \<Rightarrow> exn + pyval" where
  "power_get_value data =
     andthen (get_by_path data [''e_1002'', ''e_A002'']) (\<lambda>path.
       if py_truthy path then andthen (pv_at path 0) (label_or_unknown POWER_MAP)
       else Inr PNone)"

datatype sensor_kind = Setpoint | IndoorTemp | IndoorHumidity | FanSpeed | Mode | Power

text \<open>\<open>native_value\<close> of each of the six entities, on the polling loop's current tree.\<close>

fun native_value :: "sensor_kind \<Rightarrow> json \<Rightarrow> exn + pyval" where
  "native_value Setpoint data = setpoint_get_value data"
| "native_value IndoorTemp data = indoor_temp_get_value data"
| "native_value IndoorHumidity data = indoor_humidity_get_value data"
| "native_value FanSpeed data = fan_speed_get_value data"
| "native_value Mode data = mode_get_value data"
| "native_value Power data = power_get_value data"

section \<open>Control surface: state derivation (climate.py)\<close>

definition HVAC_MODE_OFF :: string where "HVAC_MODE_OFF = ''off''"
definition HVAC_MODE_AUTO :: string where "HVAC_MODE_AUTO = ''auto''"
definition HVAC_MODE_COOL :: string where "HVAC_MODE_COOL = ''cool''"
definition HVAC_MODE_HEAT :: string where "HVAC_MODE_HEAT = ''heat''"
definition HVAC_MODE_FAN_ONLY :: string where "HVAC_MODE_FAN_ONLY = ''fan_only''"
definition HVAC_MODE_DRY :: string where "HVAC_MODE_DRY = ''dry''"

definition FAN_SPEED_MAP :: "(string \<times> string) list" where
  "FAN_SPEED_MAP =
     [(''0300'', ''1''), (''0400'', ''2''), (''0500'', ''3''), (''0600'', ''4''),
      (''0700'', ''5''), (''0A00'', ''Auto''), (''0B00'', ''Quiet'')]"

definition MODE_MAP :: "(string \<times> string) list" where
  "MODE_MAP =
     [(''0300'', HVAC_MODE_AUTO), (''0200'', HVAC_MODE_COOL), (''0100'', HVAC_MODE_HEAT),
      (''0000'', HVAC_MODE_FAN_ONLY), (''0500'', HVAC_MODE_DRY)]"

text \<open>\<open>{v: k for k, v in M.items()}\<close>: entries are stored in order, a later one wins.\<close>

definition reverse_map :: "(string \<times> string) list \<Rightarrow> (string \<rightharpoonup> string)" where
  "reverse_map table = fold (\<lambda>kv m. m(snd kv \<mapsto> fst kv)) table Map.empty"

definition FAN_SPEED_REVERSE_MAP :: "string \<rightharpoonup> string" where
  "FAN_SPEED_REVERSE_MAP = reverse_map FAN_SPEED_MAP"

definition MODE_REVERSE_MAP :: "string \<rightharpoonup> string" where
  "MODE_REVERSE_MAP = reverse_map MODE_MAP"

text \<open>
  The three statements every property of the entity repeats: the first top-level item
  named \<open>e_1002\<close>, the first item named \<open>seg\<close> among its \<open>pch\<close>, and
  \<open>level2.get("pch", [])[i].get("pv", dflt)\<close>.
\<close>

definition drill :: "json \<Rightarrow> string \<Rightarrow> nat \<Rightarrow> json \<Rightarrow> exn + json" where
  "drill node seg i dflt =
     andthen (py_iter node) (\<lambda>items.
     andthen (find_pn items ''e_1002'') (\<lambda>level1.
     andthen (py_get level1 ''pch'' (JArr [])) (\<lambda>ch1.
     andthen (py_iter ch1) (\<lambda>items1.
     andthen (find_pn items1 seg) (\<lambda>level2.
     andthen (py_get level2 ''pch'' (JArr [])) (\<lambda>ch2.
     andthen (py_index ch2 i) (\<lambda>leaf.
     py_get leaf ''pv'' dflt)))))))"

text \<open>\<open>_get_power_value\<close>: any exception gives \<open>"00"\<close>.\<close>

definition get_power_value :: "json \<Rightarrow> json" where
  "get_power_value data =
     (case drill data ''e_A002'' 0 (JStr ''00'') of Inl e \<Rightarrow> JStr ''00'' | Inr pv \<Rightarrow> pv)"

text \<open>\<open>M.get(key, default)\<close> with the default as given; an unhashable key raises.\<close>

fun dict_get :: "(string \<times> string) list \<Rightarrow> json \<Rightarrow> pyval \<Rightarrow> exn + pyval" where
  "dict_get table (JStr key) dflt =
     Inr (case map_of table key of Some v \<Rightarrow> PStr v | None \<Rightarrow> dflt)"
| "dict_get table (JArr xs) dflt = Inl TypeError"
| "dict_get table (JObj kvs) dflt = Inl TypeError"
| "dict_get table _ dflt = Inr dflt"

definition hvac_mode_body :: "json \<Rightarrow> exn + pyval" where
  "hvac_mode_body data =
     (if get_power_value data \<noteq> JStr ''01'' then Inr (PStr HVAC_MODE_OFF)
      else andthen (drill data ''e_3001'' 0 (JStr []))
             (\<lambda>mode_hex. dict_get MODE_MAP mode_hex (PStr HVAC_MODE_OFF)))"

definition hvac_mode :: "json \<Rightarrow> pyval" where
  "hvac_mode data =
     (case hvac_mode_body data of Inl e \<Rightarrow> PStr HVAC_MODE_OFF | Inr m \<Rightarrow> m)"

text \<open>The readings decode inline; \<open>bytes.fromhex\<close> of a non-string is TypeError.\<close>

fun int_from_hex :: "json \<Rightarrow> exn + nat" where
  "int_from_hex (JStr hexstr) =
     (case fromhex hexstr of Inl e \<Rightarrow> Inl e | Inr bs \<Rightarrow> Inr (from_bytes bs))"
| "int_from_hex _ = Inl TypeError"

definition current_temperature :: "json \<Rightarrow> pyval" where
  "current_temperature data =
     (case andthen (drill data ''e_A00B'' 0 (JStr [])) int_from_hex of
        Inl e \<Rightarrow> PNone
      | Inr raw \<Rightarrow> PNum (of_nat raw))"

definition target_temperature :: "json \<Rightarrow> pyval" where
  "target_temperature data =
     (case andthen (drill data ''e_3001'' 2 (JStr [])) int_from_hex of
        Inl e \<Rightarrow> PNone
      | Inr raw \<Rightarrow> PNum (of_nat raw / 2))"

definition fan_mode :: "json \<Rightarrow> pyval" where
  "fan_mode data =
     (case andthen (drill data ''e_3001'' 8 (JStr []))
             (\<lambda>hexstr. dict_get FAN_SPEED_MAP hexstr PNone) of
        Inl e \<Rightarrow> PNone
      | Inr v \<Rightarrow> v)"

section \<open>Control surface: write operations (climate.py)\<close>

text \<open>
  What a write operation does to the outside, in order: the PUT it sends (address and JSON
  body), the refresh it asks of its polling loop, and its log lines (level and message,
  without the formatted arguments).
\<close>

datatype level = Debug | Info | Warning | Error

datatype effect =
    HttpPut string json
  | RequestRefresh
  | Log level string

text \<open>
  One "set" request: operation code 3 on the status resource, with the path from
  \<open>dgc_status\<close> through \<open>e_1002\<close> and one container down to the parameter set.
\<close>

definition set_request :: "string \<Rightarrow> string \<Rightarrow> string \<Rightarrow> json" where
  "set_request container param pv =
     JObj [(''op'', JInt 3),
           (''to'', JStr ''/dsiot/edge/adr_0100.dgc_status''),
           (''pc'', JObj [(''pn'', JStr ''dgc_status''),
             (''pch'', JArr [JObj [(''pn'', JStr ''e_1002''),
               (''pch'', JArr [JObj [(''pn'', JStr container),
                 (''pch'', JArr [JObj [(''pn'', JStr param), (''pv'', JStr pv)]])]])]])])]"

definition multireq_url :: "string \<Rightarrow> string" where
  "multireq_url host = ''http://'' @ host @ ''/dsiot/multireq''"

text \<open>
  The \<open>try\<close> around \<open>session.put\<close> and \<open>raise_for_status\<close>: \<open>put_result\<close> is the
  exception the attempt ended with, if any. It is logged either way and never re-raised.
\<close>

definition send_put :: "string \<Rightarrow> json \<Rightarrow> exn option \<Rightarrow> string \<Rightarrow> string \<Rightarrow> effect list" where
  "send_put host payload put_result ok_msg err_msg =
     [HttpPut (multireq_url host) payload,
      (case put_result of None \<Rightarrow> Log Info ok_msg | Some e \<Rightarrow> Log Error err_msg)]"

definition async_set_hvac_mode :: "string \<Rightarrow> string \<Rightarrow> exn option \<Rightarrow> effect list" where
  "async_set_hvac_mode host new_mode put_result =
     (if new_mode = HVAC_MODE_OFF then
        send_put host (JObj [(''requests'', JArr [set_request ''e_A002'' ''p_01'' ''00''])])
          put_result ''Climate: set HVAC_MODE OFF (power=00)'' ''Climate: error setting OFF''
        @ [RequestRefresh]
      else case MODE_REVERSE_MAP new_mode of
        None \<Rightarrow> [Log Warning ''Climate: unsupported hvac_mode'']
      | Some mode_hex \<Rightarrow>
          send_put host
            (JObj [(''requests'', JArr [set_request ''e_A002'' ''p_01'' ''01'',
                                        set_request ''e_3001'' ''p_01'' mode_hex])])
            put_result ''Climate: set HVAC_MODE'' ''Climate: error setting hvac_mode''
          @ [RequestRefresh])"

text \<open>
  \<open>to_bytes\<close> stands outside the \<open>try\<close>, so its OverflowError would leave the method;
  after the clamp it cannot occur.
\<close>

definition async_set_temperature :: "string \<Rightarrow> rat option \<Rightarrow> exn option \<Rightarrow> exn + effect list" where
  "async_set_temperature host temperature put_result =
     (case temperature of
        None \<Rightarrow> Inr []
      | Some temp \<Rightarrow>
          andthen (temperature_hex temp) (\<lambda>hexstr.
            Inr (send_put host
                   (JObj [(''requests'', JArr [set_request ''e_3001'' ''p_03'' hexstr])])
                   put_result ''Climate: set temperature'' ''Climate: error setting temperature''
                 @ [RequestRefresh])))"

definition async_set_fan_mode :: "string \<Rightarrow> string \<Rightarrow> exn option \<Rightarrow> effect list" where
  "async_set_fan_mode host new_fan put_result =
     (case FAN_SPEED_REVERSE_MAP new_fan of
        None \<Rightarrow> [Log Warning ''Climate: fan_mode not supported'']
      | Some hexcode \<Rightarrow>
          send_put host
            (JObj [(''requests'', JArr [set_request ''e_3001'' ''p_0A'' hexcode])])
            put_result ''Climate: set fan_mode'' ''Climate: error setting fan_mode''
          @ [RequestRefresh])"

text \<open>Two questions about an effect: is it a request sent, is it a refresh asked for.\<close>

fun is_write :: "effect \<Rightarrow> bool" where
  "is_write (HttpPut url payload) = True"
| "is_write _ = False"

fun is_refresh :: "effect \<Rightarrow> bool" where
  "is_refresh RequestRefresh = True"
| "is_refresh _ = False"

section \<open>Fetching the status (sensor.py)\<close>

text \<open>
  How the POST to the device can end: the connection fails, the ten seconds run out, or a
  response arrives with a status and a body. \<open>resp.json()\<close> raises ContentTypeError (a
  ClientError) when the body is not declared as JSON and a JSONDecodeError (a ValueError)
  when it does not parse; \<open>raise_for_status\<close> raises a ClientError from status 400 up.
\<close>

datatype body = WrongContentType | InvalidJson | Json json

datatype exchange = TransportError | Timeout | Response nat body

definition extract_pch :: "json \<Rightarrow> exn + json" where
  "extract_pch data =
     andthen (py_item data ''responses'') (\<lambda>responses.
     andthen (py_index responses 0) (\<lambda>first.
     andthen (py_item first ''pc'') (\<lambda>pc.
     py_item pc ''pch'')))"

fun fetch_status_body :: "exchange \<Rightarrow> exn + json" where
  "fetch_status_body TransportError = Inl ClientError"
| "fetch_status_body Timeout = Inl TimeoutError"
| "fetch_status_body (Response status b) =
     (if 400 \<le> status then Inl ClientError
      else case b of
             WrongContentType \<Rightarrow> Inl ClientError
           | InvalidJson \<Rightarrow> Inl ValueError
           | Json data \<Rightarrow> extract_pch data)"

text \<open>\<open>fetch_status\<close>: ClientError, TimeoutError and KeyError are logged and become \<open>[]\<close>.\<close>

definition fetch_status :: "exchange \<Rightarrow> exn + json" where
  "fetch_status x =
     (case fetch_status_body x of
        Inr tree \<Rightarrow> Inr tree
      | Inl e \<Rightarrow>
          if e = ClientError \<or> e = TimeoutError \<or> e = KeyError then Inr (JArr [])
          else Inl e)"

section \<open>Polling loops and surface setup\<close>

record coordinator =
  name :: string
  data :: json
  last_update_success :: bool

text \<open>
  The polling loop is the platform's \<open>DataUpdateCoordinator\<close>, a library class, taken as
  the platform documents it: a refresh awaits the update method, keeps the tree it returned
  and sets \<open>last_update_success\<close>, or clears \<open>last_update_success\<close> when the update
  method raised, and in neither case raises itself; \<open>async_config_entry_first_refresh\<close>
  does one refresh and raises ConfigEntryNotReady when it did not succeed.
\<close>

definition async_refresh :: "exn + json \<Rightarrow> coordinator \<Rightarrow> coordinator" where
  "async_refresh fetched c =
     (case fetched of
        Inr tree \<Rightarrow> c\<lparr>data := tree, last_update_success := True\<rparr>
      | Inl e \<Rightarrow> c\<lparr>last_update_success := False\<rparr>)"

definition async_config_entry_first_refresh :: "exn + json \<Rightarrow> coordinator \<Rightarrow> exn + coordinator" where
  "async_config_entry_first_refresh fetched c =
     (let c' = async_refresh fetched c in
      if last_update_success c' then Inr c' else Inl ConfigEntryNotReady)"

definition new_coordinator :: "string \<Rightarrow> coordinator" where
  "new_coordinator n = \<lparr>name = n, data = JNull, last_update_success = True\<rparr>"

text \<open>\<open>BaseDaikinSensor.available\<close>.\<close>

definition available :: "coordinator \<Rightarrow> bool" where
  "available c = last_update_success c"

text \<open>
  \<open>async_setup_entry\<close> of sensor.py, with the integration's \<open>DOMAIN\<close> (const.py) as a
  parameter: the loop is named \<open>DOMAIN-host\<close>; the initial refresh is not guarded, so its
  exception leaves the setup before any entity is added.
\<close>

definition sensor_coordinator_name :: "string \<Rightarrow> string \<Rightarrow> string" where
  "sensor_coordinator_name domain host = domain @ ''-'' @ host"

definition sensor_async_setup_entry ::
  "string \<Rightarrow> string \<Rightarrow> exchange \<Rightarrow> exn + coordinator \<times> sensor_kind list" where
  "sensor_async_setup_entry domain host x =
     andthen (async_config_entry_first_refresh (fetch_status x)
                (new_coordinator (sensor_coordinator_name domain host)))
       (\<lambda>c. Inr (c, [Setpoint, IndoorTemp, IndoorHumidity, FanSpeed, Mode, Power]))"

text \<open>
  \<open>async_setup_entry\<close> of climate.py: the loop is named \<open>DOMAIN-host-climate\<close>; a failed
  initial refresh is logged and the setup returns without an entity. The entity keeps the
  host it was built with.
\<close>

record climate_entity =
  host :: string

definition climate_coordinator_name :: "string \<Rightarrow> string \<Rightarrow> string" where
  "climate_coordinator_name domain h = domain @ ''-'' @ h @ ''-climate''"

definition climate_async_setup_entry ::
  "string \<Rightarrow> string \<Rightarrow> exchange \<Rightarrow> climate_entity list" where
  "climate_async_setup_entry domain h x =
     (case async_config_entry_first_refresh (fetch_status x)
             (new_coordinator (climate_coordinator_name domain h)) of
        Inl e \<Rightarrow> []
      | Inr c \<Rightarrow> [\<lparr>host = h\<rparr>])"

subsection \<open>Device records\<close>

record device_info =
  identifiers :: "(string \<times> string) set"
  dev_name :: string
  manufacturer :: string
  model :: string

text \<open>\<open>BaseDaikinSensor.device_info\<close>: the identifier is the polling loop's name.\<close>

definition sensor_device_info :: "string \<Rightarrow> coordinator \<Rightarrow> device_info" where
  "sensor_device_info domain c =
     \<lparr>identifiers = {(domain, name c)}, dev_name = ''Daikin Alira'',
      manufacturer = ''Daikin'', model = ''Alira''\<rparr>"

text \<open>\<open>DaikinClimate.device_info\<close>: the identifier is built from the entity's host.\<close>

definition climate_device_info :: "string \<Rightarrow> climate_entity \<Rightarrow> device_info" where
  "climate_device_info domain ent =
     \<lparr>identifiers = {(domain, domain @ ''-'' @ host ent)}, dev_name = ''Daikin Alira'',
      manufacturer = ''Daikin'', model = ''Alira''\<rparr>"

section \<open>Configuration flow (config flow module)\<close>

text \<open>
  The probe \<open>GET http://host/\<close> ends with a status or with an exception of the transport.
  The step answers with a created entry (title and stored host) or with the form and its
  errors.
\<close>

datatype probe = ProbeRaised | ProbeStatus nat

datatype flow_result =
    CreateEntry string string
  | ShowForm string "(string \<times> string) list"

definition async_step_user :: "string option \<Rightarrow> probe \<Rightarrow> flow_result" where
  "async_step_user user_input p =
     (case user_input of
        None \<Rightarrow> ShowForm ''user'' []
      | Some h \<Rightarrow>
          (case p of
             ProbeStatus status \<Rightarrow>
               if status \<noteq> 200 then ShowForm ''user'' [(''base'', ''cannot_connect'')]
               else CreateEntry (''Daikin @ '' @ h) h
           | ProbeRaised \<Rightarrow> ShowForm ''user'' [(''base'', ''cannot_connect'')]))"

section \<open>Notions of the specification\<close>

text \<open>
  Path navigation as the specification words it: at each level the current nodes are
  searched for the first one whose name equals the requested segment, and the search
  continues among that node's children. \<open>path_miss\<close> says that some segment of the path
  is not found at its level.
\<close>

fun named :: "string \<Rightarrow> json \<Rightarrow> bool" where
  "named seg (JObj kvs) = (map_of kvs ''pn'' = Some (JStr seg))"
| "named seg _ = False"

fun nodes_of :: "json \<Rightarrow> json list" where
  "nodes_of (JArr xs) = xs"
| "nodes_of _ = []"

fun children :: "json \<Rightarrow> json" where
  "children (JObj kvs) = (case map_of kvs ''pch'' of None \<Rightarrow> JArr [] | Some v \<Rightarrow> v)"
| "children _ = JArr []"

fun path_miss :: "json \<Rightarrow> string list \<Rightarrow> bool" where
  "path_miss level [] = False"
| "path_miss level (seg # segs) =
     (case find (named seg) (nodes_of level) of
        None \<Rightarrow> True
      | Some item \<Rightarrow> path_miss (children item) segs)"

text \<open>
  A status tree of the shape the device answers with, as far as the entities read it:
  \<open>e_1002\<close> holding the power container \<open>e_A002\<close> with one leaf, and the container
  \<open>e_3001\<close> with the given children.
\<close>

definition leaf :: "string \<Rightarrow> json \<Rightarrow> json" where
  "leaf pn pv = JObj [(''pn'', JStr pn), (''pv'', pv)]"

definition sample_tree :: "json \<Rightarrow> json list \<Rightarrow> json" where
  "sample_tree power_pv e_3001_children =
     JArr [JObj [(''pn'', JStr ''e_1002''),
       (''pch'', JArr [
          JObj [(''pn'', JStr ''e_A002''), (''pch'', JArr [leaf ''p_01'' power_pv])],
          JObj [(''pn'', JStr ''e_3001''), (''pch'', JArr e_3001_children)]])]]"

text \<open>
  The fetch failures the specification lists first: a transport error, a timeout, or an
  error status.
\<close>

fun transport_failure :: "exchange \<Rightarrow> bool" where
  "transport_failure TransportError = True"
| "transport_failure Timeout = True"
| "transport_failure (Response status b) = (400 \<le> status)"

text \<open>A well-formed answer of the device carrying the given top-level nodes.\<close>

definition status_document :: "json list \<Rightarrow> json" where
  "status_document nodes =
     JObj [(''responses'', JArr [JObj [(''pc'', JObj [(''pch'', JArr nodes)])]])]"

section \<open>Facts about the hex codec\<close>

lemma hexval_hexdigit: "n < 16 \<Longrightarrow> hexval (upper_char (hexdigit n)) = Some n"
  unfolding hexval_def upper_char_def hexdigit_def Let_def
  by (auto simp: of_char_of [where ?'a = nat] split: if_splits)

lemma not_space_hexdigit: "n < 16 \<Longrightarrow> \<not> is_space (upper_char (hexdigit n))"
  unfolding is_space_def upper_char_def hexdigit_def Let_def
  by (auto split: if_splits)

lemma fromhex_bytes_hex:
  "\<forall>b \<in> set bs. b < 256 \<Longrightarrow> fromhex (str_upper (bytes_hex bs)) = Inr bs"
proof (induction bs)
  case Nil
  then show ?case by (simp add: str_upper_def bytes_hex_def)
next
  case (Cons b bs)
  then have b: "b div 16 < 16" "b mod 16 < 16" by auto
  have ih: "fromhex (str_upper (bytes_hex bs)) = Inr bs" using Cons by simp
  have "str_upper (bytes_hex (b # bs)) =
        upper_char (hexdigit (b div 16)) # upper_char (hexdigit (b mod 16))
          # str_upper (bytes_hex bs)"
    by (simp add: str_upper_def bytes_hex_def)
  then show ?case
    using b ih by (simp add: hexval_hexdigit not_space_hexdigit)
qed

lemma from_bytes_le_bytes: "from_bytes (le_bytes k n) = n mod 256 ^ k"
proof (induction k arbitrary: n)
  case 0
  then show ?case by simp
next
  case (Suc k)
  show ?case by (simp add: Suc mod_mult2_eq)
qed

lemma le_bytes_lt: "\<forall>b \<in> set (le_bytes k n). b < 256"
  by (induction k arbitrary: n) auto

lemma length_bytes_hex: "length (str_upper (bytes_hex bs)) = 2 * length bs"
  by (induction bs) (simp_all add: str_upper_def bytes_hex_def)

lemma length_le_bytes: "length (le_bytes k n) = k"
  by (induction k arbitrary: n) simp_all

lemma py_round_of_int: "py_round (of_int k) = k"
  by (simp add: py_round_def)

section \<open>Facts about navigation\<close>

lemma find_pn_exn: "find_pn items seg = Inl e \<Longrightarrow> e = StopIteration \<or> e = AttributeError"
proof (induction items)
  case Nil
  then show ?case by simp
next
  case (Cons item items)
  then show ?case by (cases item) (auto split: if_splits)
qed

lemma navigate_exn:
  "navigate node segs = Inl e \<Longrightarrow> e = StopIteration \<or> e = AttributeError \<or> e = TypeError"
proof (induction segs arbitrary: node)
  case Nil
  then show ?case by simp
next
  case (Cons seg segs)
  show ?case
  proof (cases "py_iter node")
    case (Inl e')
    then have "e' = TypeError" by (cases node) auto
    with Inl Cons.prems show ?thesis by simp
  next
    case items: (Inr items)
    show ?thesis
    proof (cases "find_pn items seg")
      case (Inl e')
      with items Cons.prems find_pn_exn [OF Inl] show ?thesis by auto
    next
      case item: (Inr item)
      show ?thesis
      proof (cases "py_get item ''pch'' (JArr [])")
        case (Inl e')
        then have "e' = AttributeError" by (cases item) auto
        with Inl items item Cons.prems show ?thesis by simp
      next
        case (Inr ch)
        with items item Cons.prems have "navigate ch segs = Inl e" by simp
        then show ?thesis by (rule Cons.IH)
      qed
    qed
  qed
qed

lemma get_by_path_total: "\<exists>v. get_by_path tree segs = Inr v"
proof (cases "navigate tree segs")
  case (Inl e)
  with navigate_exn [OF Inl] show ?thesis by (auto simp: get_by_path_def)
next
  case (Inr v)
  then show ?thesis by (simp add: get_by_path_def)
qed

lemma find_pn_found:
  "find_pn items seg = Inr item \<Longrightarrow> find (named seg) items = Some item"
proof (induction items)
  case Nil
  then show ?case by simp
next
  case (Cons x xs)
  then show ?case by (cases x) (auto split: if_splits option.splits)
qed

lemma find_pn_strings: "\<exists>e. find_pn (map (\<lambda>x. JStr (f x)) xs) seg = Inl e"
  by (cases xs) auto

lemma py_get_children: "py_get item ''pch'' (JArr []) = Inr ch \<Longrightarrow> ch = children item"
  by (cases item) auto

lemma navigate_miss: "path_miss node segs \<Longrightarrow> \<exists>e. navigate node segs = Inl e"
proof (induction segs arbitrary: node)
  case Nil
  then show ?case by simp
next
  case (Cons seg segs)
  show ?case
  proof (cases "find_pn (nodes_of node) seg")
    case (Inl e)
    show ?thesis
    proof (cases node)
      case (JArr xs)
      with Inl show ?thesis by simp
    next
      case (JObj kvs)
      with find_pn_strings [of fst kvs seg] show ?thesis by auto
    next
      case (JStr s)
      with find_pn_strings [of "\<lambda>c. [c]" s seg] show ?thesis by auto
    qed simp_all
  next
    case (Inr item)
    have found: "find (named seg) (nodes_of node) = Some item"
      using Inr by (rule find_pn_found)
    then obtain xs where node: "node = JArr xs" by (cases node) auto
    from found Cons.prems have miss: "path_miss (children item) segs" by simp
    show ?thesis
    proof (cases "py_get item ''pch'' (JArr [])")
      case (Inl e)
      with node Inr show ?thesis by simp
    next
      case ch: (Inr ch)
      then have "ch = children item" by (rule py_get_children)
      with miss Cons.IH obtain e where "navigate ch segs = Inl e" by blast
      with node Inr ch show ?thesis by simp
    qed
  qed
qed

section \<open>Facts about the entity's readers\<close>

lemma andthen_simps [simp]:
  "andthen (Inl e) f = Inl e"
  "andthen (Inr x) f = f x"
  by (simp_all add: andthen_def)

text \<open>The entity's inline navigation and the sensors' \<open>_get_by_path\<close> walk the same way.\<close>

lemma drill_navigate:
  "drill tree seg i dflt =
     andthen (navigate tree [''e_1002'', seg])
       (\<lambda>ch. andthen (py_index ch i) (\<lambda>leaf. py_get leaf ''pv'' dflt))"
  by (simp add: drill_def andthen_def split: sum.splits)

lemma dict_get_unmapped:
  "\<forall>k. code = JStr k \<longrightarrow> map_of table k = None \<Longrightarrow>
   dict_get table code dflt = Inr dflt \<or> dict_get table code dflt = Inl TypeError"
  by (cases code) auto

lemma drill_sample_power:
  "drill (sample_tree power_pv cs) ''e_A002'' 0 (JStr ''00'') = Inr power_pv"
  by (simp add: sample_tree_def drill_def leaf_def)

lemma navigate_sample_e_3001:
  "navigate (sample_tree power_pv cs) [''e_1002'', ''e_3001''] = Inr (JArr cs)"
  by (simp add: sample_tree_def leaf_def)

lemma drill_sample_e_3001:
  "drill (sample_tree power_pv cs) ''e_3001'' i dflt =
     andthen (py_index (JArr cs) i) (\<lambda>leaf. py_get leaf ''pv'' dflt)"
  by (simp only: drill_navigate navigate_sample_e_3001 andthen_simps)

lemma sensor_fan_map_same: "SENSOR_FAN_SPEED_MAP = FAN_SPEED_MAP"
  by (simp add: FAN_SPEED_MAP_def SENSOR_FAN_SPEED_MAP_def)

section \<open>Facts about the write operations and the fetch\<close>

lemma fan_reverse_unknown:
  "new_fan \<notin> set [''1'', ''2'', ''3'', ''4'', ''5'', ''Auto'', ''Quiet''] \<Longrightarrow>
   FAN_SPEED_REVERSE_MAP new_fan = None"
  by (simp add: FAN_SPEED_REVERSE_MAP_def reverse_map_def FAN_SPEED_MAP_def)

lemma mode_reverse_unknown:
  "new_mode \<notin> set [HVAC_MODE_AUTO, HVAC_MODE_COOL, HVAC_MODE_HEAT, HVAC_MODE_FAN_ONLY,
                    HVAC_MODE_DRY] \<Longrightarrow>
   MODE_REVERSE_MAP new_mode = None"
  by (simp add: MODE_REVERSE_MAP_def reverse_map_def MODE_MAP_def)

text \<open>A label of the fan map does send one request and asks for one refresh.\<close>

lemma supported_fan_mode_writes:
  "new_fan \<in> set [''1'', ''2'', ''3'', ''4'', ''5'', ''Auto'', ''Quiet''] \<Longrightarrow>
   length (filter is_write (async_set_fan_mode h new_fan put_result)) = 1
   \<and> length (filter is_refresh (async_set_fan_mode h new_fan put_result)) = 1"
  by (auto simp: async_set_fan_mode_def FAN_SPEED_REVERSE_MAP_def reverse_map_def
      FAN_SPEED_MAP_def send_put_def split: option.splits)

text \<open>What \<open>fetch_status\<close> does recover from, and what it returns on success.\<close>

lemma fetch_status_transport_failure:
  "transport_failure x \<Longrightarrow> fetch_status x = Inr (JArr [])"
  by (cases x) (simp_all add: fetch_status_def)

lemma fetch_status_not_json:
  "fetch_status (Response status WrongContentType) = Inr (JArr [])"
  by (simp add: fetch_status_def)

lemma fetch_status_missing_key:
  "extract_pch doc = Inl KeyError \<Longrightarrow> fetch_status (Response status (Json doc)) = Inr (JArr [])"
  by (simp add: fetch_status_def)

lemma fetch_status_success:
  "status < 400 \<Longrightarrow> fetch_status (Response status (Json (status_document nodes))) = Inr (JArr nodes)"
  by (simp add: fetch_status_def status_document_def extract_pch_def)

lemma native_value_empty_tree: "native_value k (JArr []) = Inr PNone"
  by (cases k)
     (simp_all add: setpoint_get_value_def indoor_temp_get_value_def
        indoor_humidity_get_value_def fan_speed_get_value_def mode_get_value_def
        power_get_value_def get_by_path_def)

text \<open>
  A fetch that timed out hands the polling loop the same value as a device that answered
  with an empty tree, so nothing the loop computes from the outcome of its fetch function
  can tell the two apart.
\<close>

lemma fetch_status_timeout_as_empty_answer:
  "fetch_status Timeout = fetch_status (Response 200 (Json (status_document [])))"
  by (simp add: fetch_status_def status_document_def extract_pch_def)

section \<open>Temperature round trip\<close>

text \<open>
  Claim C1. For every temperature \<open>t\<close> that is a multiple of 0.5 in [16.0, 30.0] (twice
  \<open>t\<close> is an integer \<open>k\<close>), the set-target-temperature operation encodes \<open>t\<close> as a
  hex string \<open>h\<close> of two bytes (four characters), and decoding \<open>h\<close> with the decode-value
  helper at scale 2 yields \<open>t\<close> again.
\<close>

theorem temperature_round_trip:
  assumes "16 \<le> t" and "t \<le> 30" and "t * 2 = of_int k"
  shows "\<exists>h. temperature_hex t = Inr h \<and> length h = 4
             \<and> parse_hex_to_int (JStr h) 2 = PNum t"
proof -
  have "(of_int 32 :: rat) \<le> of_int k" and "(of_int k :: rat) \<le> of_int 60"
    using assms by auto
  then have k: "32 \<le> k" "k \<le> 60"
    unfolding of_int_le_iff by auto
  have clamp: "clamp_temp t = t"
    using assms by (simp add: clamp_temp_def MIN_TEMP_def MAX_TEMP_def)
  define h where "h = str_upper (bytes_hex (le_bytes 2 (nat k)))"
  have enc: "temperature_hex t = Inr h"
    using k by (simp add: temperature_hex_def clamp assms(3) py_round_of_int to_bytes_def h_def)
  have len: "length h = 4"
    by (simp add: h_def length_bytes_hex length_le_bytes)
  have "fromhex h = Inr (le_bytes 2 (nat k))"
    unfolding h_def by (rule fromhex_bytes_hex) (rule le_bytes_lt)
  moreover have "from_bytes (le_bytes 2 (nat k)) = nat k"
    using k by (simp add: from_bytes_le_bytes)
  moreover have "(of_nat (nat k) :: rat) / 2 = t"
    using k assms(3) by simp
  ultimately have "parse_hex_to_int (JStr h) 2 = PNum t"
    by (simp add: parse_hex_to_int_def)
  with enc len show ?thesis by blast
qed

text \<open>The spec's example: 24.5 is sent as \<open>3100\<close> and read back as 24.5.\<close>

theorem temperature_round_trip_witness:
  "(16 :: rat) \<le> 49 / 2 \<and> (49 / 2 :: rat) \<le> 30 \<and> (49 / 2 :: rat) * 2 = of_int 49
   \<and> temperature_hex (49 / 2) = Inr ''3100''
   \<and> parse_hex_to_int (JStr ''3100'') 2 = PNum (49 / 2)"
proof -
  have "\<exists>h. temperature_hex (49 / 2) = Inr h \<and> length h = 4
             \<and> parse_hex_to_int (JStr h) 2 = PNum (49 / 2)"
    by (rule temperature_round_trip [of "49 / 2" 49]) simp_all
  moreover have "temperature_hex (49 / 2) = Inr ''3100''"
    by code_simp
  ultimately show ?thesis by auto
qed

section \<open>Recovery of the status fetch\<close>

text \<open>
  Claim C2. If the fetch meets a transport error, a timeout, a non-2xx status or a body
  that lacks the \<open>responses/pc/pch\<close> shape, \<open>fetch_status\<close> returns the empty sequence
  and raises nothing. The code does so for the failures it catches (the three lemmas on
  \<open>fetch_status\<close> above), but not for every malformed shape: the answer
  \<open>{"responses": []}\<close> makes \<open>responses[0]\<close> raise IndexError, which the handler does not
  name, and the exception leaves \<open>fetch_status\<close>.
\<close>

theorem fetch_status_empty_responses_raises:
  "fetch_status (Response 200 (Json (JObj [(''responses'', JArr [])]))) = Inl IndexError"
  by (simp add: fetch_status_def extract_pch_def)

section \<open>Fetch failures and the polling loop\<close>

text \<open>
  Claim C3, as the code has it. When \<open>fetch_status\<close> raises, a poll leaves the loop's
  last-success flag false and every telemetry value unavailable, the poll itself raising
  nothing, and a first fetch that raises aborts the setup of either surface with no entity
  registered. A transport error, a timeout or an error status does not make
  \<open>fetch_status\<close> raise: it returns the empty tree, so the poll counts as a success, the
  six values stay available and each reads as no value, and a setup whose first fetch ends
  so registers its entities.
\<close>

theorem fetch_failure_isolation:
  "(fetch_status x = Inl e
      \<longrightarrow> \<not> last_update_success (async_refresh (fetch_status x) c)
          \<and> \<not> available (async_refresh (fetch_status x) c)
          \<and> sensor_async_setup_entry d h x = Inl ConfigEntryNotReady
          \<and> climate_async_setup_entry d h x = [])
   \<and> (transport_failure x
      \<longrightarrow> fetch_status x = Inr (JArr [])
          \<and> available (async_refresh (fetch_status x) c)
          \<and> data (async_refresh (fetch_status x) c) = JArr []
          \<and> native_value k (data (async_refresh (fetch_status x) c)) = Inr PNone
          \<and> sensor_async_setup_entry d h x
              = Inr (\<lparr>name = sensor_coordinator_name d h, data = JArr [],
                       last_update_success = True\<rparr>,
                     [Setpoint, IndoorTemp, IndoorHumidity, FanSpeed, Mode, Power])
          \<and> climate_async_setup_entry d h x = [\<lparr>host = h\<rparr>])"
proof (intro conjI impI)
  assume r: "fetch_status x = Inl e"
  show "\<not> last_update_success (async_refresh (fetch_status x) c)"
    by (simp add: r async_refresh_def)
  show "\<not> available (async_refresh (fetch_status x) c)"
    by (simp add: r async_refresh_def available_def)
  show "sensor_async_setup_entry d h x = Inl ConfigEntryNotReady"
    by (simp add: r sensor_async_setup_entry_def async_config_entry_first_refresh_def
          async_refresh_def)
  show "climate_async_setup_entry d h x = []"
    by (simp add: r climate_async_setup_entry_def async_config_entry_first_refresh_def
          async_refresh_def)
next
  assume "transport_failure x"
  then have f: "fetch_status x = Inr (JArr [])"
    by (rule fetch_status_transport_failure)
  show "fetch_status x = Inr (JArr [])" by (rule f)
  show "available (async_refresh (fetch_status x) c)"
    by (simp add: f async_refresh_def available_def)
  show "data (async_refresh (fetch_status x) c) = JArr []"
    by (simp add: f async_refresh_def)
  show "native_value k (data (async_refresh (fetch_status x) c)) = Inr PNone"
    by (simp add: f async_refresh_def native_value_empty_tree)
  show "sensor_async_setup_entry d h x
          = Inr (\<lparr>name = sensor_coordinator_name d h, data = JArr [],
                   last_update_success = True\<rparr>,
                 [Setpoint, IndoorTemp, IndoorHumidity, FanSpeed, Mode, Power])"
    by (simp add: f sensor_async_setup_entry_def async_config_entry_first_refresh_def
          async_refresh_def new_coordinator_def)
  show "climate_async_setup_entry d h x = [\<lparr>host = h\<rparr>]"
    by (simp add: f climate_async_setup_entry_def async_config_entry_first_refresh_def
          async_refresh_def new_coordinator_def)
qed

text \<open>
  A fetch that raises (the device answers \<open>{"responses": []}\<close>) and one that times out,
  each on a loop that had polled successfully and at a setup for host \<open>10.0.0.5\<close>.
\<close>

theorem fetch_failure_isolation_witness:
  "fetch_status (Response 200 (Json (JObj [(''responses'', JArr [])]))) = Inl IndexError
   \<and> \<not> available (async_refresh
          (fetch_status (Response 200 (Json (JObj [(''responses'', JArr [])]))))
          \<lparr>name = ''daikin_alira-10.0.0.5'', data = JArr [], last_update_success = True\<rparr>)
   \<and> sensor_async_setup_entry ''daikin_alira'' ''10.0.0.5''
         (Response 200 (Json (JObj [(''responses'', JArr [])]))) = Inl ConfigEntryNotReady
   \<and> climate_async_setup_entry ''daikin_alira'' ''10.0.0.5''
         (Response 200 (Json (JObj [(''responses'', JArr [])]))) = []
   \<and> transport_failure Timeout
   \<and> fetch_status Timeout = Inr (JArr [])
   \<and> native_value Setpoint (data (async_refresh (fetch_status Timeout)
          \<lparr>name = ''daikin_alira-10.0.0.5'', data = JArr [], last_update_success = True\<rparr>))
       = Inr PNone
   \<and> climate_async_setup_entry ''daikin_alira'' ''10.0.0.5'' Timeout = [\<lparr>host = ''10.0.0.5''\<rparr>]"
proof -
  let ?bad = "Response 200 (Json (JObj [(''responses'', JArr [])]))"
  let ?c = "\<lparr>name = ''daikin_alira-10.0.0.5'', data = JArr [], last_update_success = True\<rparr>"
  have r: "fetch_status ?bad = Inl IndexError"
    by (simp add: fetch_status_def extract_pch_def)
  have t: "transport_failure Timeout" by simp
  from r fetch_failure_isolation [of ?bad IndexError ?c "''daikin_alira''" "''10.0.0.5''"]
  have a: "\<not> available (async_refresh (fetch_status ?bad) ?c)
           \<and> sensor_async_setup_entry ''daikin_alira'' ''10.0.0.5'' ?bad = Inl ConfigEntryNotReady
           \<and> climate_async_setup_entry ''daikin_alira'' ''10.0.0.5'' ?bad = []"
    by blast
  from t fetch_failure_isolation [of Timeout _ ?c "''daikin_alira''" "''10.0.0.5''" Setpoint]
  have b: "fetch_status Timeout = Inr (JArr [])
           \<and> native_value Setpoint (data (async_refresh (fetch_status Timeout) ?c)) = Inr PNone
           \<and> climate_async_setup_entry ''daikin_alira'' ''10.0.0.5'' Timeout
               = [\<lparr>host = ''10.0.0.5''\<rparr>]"
    by blast
  from r t a b show ?thesis by blast
qed

text \<open>
  The claim as the specification states it fails at a timeout: after a poll that timed
  out the loop's last-success flag is true and the values are available, and a setup whose
  first fetch timed out registers the six telemetry values and the control entity.
\<close>

theorem fetch_failure_isolation_counterexample:
  "last_update_success (async_refresh (fetch_status Timeout)
       \<lparr>name = ''daikin_alira-10.0.0.5'', data = JArr [], last_update_success = True\<rparr>)
   \<and> available (async_refresh (fetch_status Timeout)
       \<lparr>name = ''daikin_alira-10.0.0.5'', data = JArr [], last_update_success = True\<rparr>)
   \<and> sensor_async_setup_entry ''daikin_alira'' ''10.0.0.5'' Timeout
     = Inr (\<lparr>name = ''daikin_alira-10.0.0.5'', data = JArr [], last_update_success = True\<rparr>,
            [Setpoint, IndoorTemp, IndoorHumidity, FanSpeed, Mode, Power])
   \<and> climate_async_setup_entry ''daikin_alira'' ''10.0.0.5'' Timeout
     = [\<lparr>host = ''10.0.0.5''\<rparr>]"
  by (simp add: fetch_status_def async_refresh_def available_def
        sensor_async_setup_entry_def climate_async_setup_entry_def
        async_config_entry_first_refresh_def new_coordinator_def
        sensor_coordinator_name_def climate_coordinator_name_def)

section \<open>Operation mode of the control entity\<close>

text \<open>
  Claim C4. For every status tree: if the power value read at
  \<open>e_1002 \<rightarrow> e_A002 \<rightarrow> child[0]\<close> is not \<open>"01"\<close> (the read fails because the node is
  absent or the tree is empty, or it yields another value), the operation mode is \<open>off\<close>
  whatever mode code the tree holds; if power is \<open>"01"\<close> and the mode code at
  \<open>e_1002 \<rightarrow> e_3001 \<rightarrow> child[0]\<close> is \<open>"0200"\<close>, the mode is \<open>cool\<close>; and if power is
  \<open>"01"\<close> and the mode code is not a key of the Mode Map, the mode is \<open>off\<close>.
\<close>

theorem mode_off_precedence:
  "(drill tree ''e_A002'' 0 (JStr ''00'') \<noteq> Inr (JStr ''01'')
      \<longrightarrow> hvac_mode tree = PStr HVAC_MODE_OFF)
   \<and> (drill tree ''e_A002'' 0 (JStr ''00'') = Inr (JStr ''01'')
        \<and> drill tree ''e_3001'' 0 (JStr []) = Inr (JStr ''0200'')
      \<longrightarrow> hvac_mode tree = PStr HVAC_MODE_COOL)
   \<and> (drill tree ''e_A002'' 0 (JStr ''00'') = Inr (JStr ''01'')
        \<and> drill tree ''e_3001'' 0 (JStr []) = Inr code
        \<and> (\<forall>k. code = JStr k \<longrightarrow> map_of MODE_MAP k = None)
      \<longrightarrow> hvac_mode tree = PStr HVAC_MODE_OFF)"
proof (intro conjI impI)
  assume "drill tree ''e_A002'' 0 (JStr ''00'') \<noteq> Inr (JStr ''01'')"
  then have "get_power_value tree \<noteq> JStr ''01''"
    by (auto simp: get_power_value_def split: sum.splits)
  then show "hvac_mode tree = PStr HVAC_MODE_OFF"
    by (simp add: hvac_mode_def hvac_mode_body_def)
next
  assume "drill tree ''e_A002'' 0 (JStr ''00'') = Inr (JStr ''01'')
        \<and> drill tree ''e_3001'' 0 (JStr []) = Inr (JStr ''0200'')"
  then show "hvac_mode tree = PStr HVAC_MODE_COOL"
    by (simp add: hvac_mode_def hvac_mode_body_def get_power_value_def MODE_MAP_def)
next
  assume a: "drill tree ''e_A002'' 0 (JStr ''00'') = Inr (JStr ''01'')
        \<and> drill tree ''e_3001'' 0 (JStr []) = Inr code
        \<and> (\<forall>k. code = JStr k \<longrightarrow> map_of MODE_MAP k = None)"
  then have "dict_get MODE_MAP code (PStr HVAC_MODE_OFF) = Inr (PStr HVAC_MODE_OFF)
           \<or> dict_get MODE_MAP code (PStr HVAC_MODE_OFF) = Inl TypeError"
    using dict_get_unmapped by blast
  with a show "hvac_mode tree = PStr HVAC_MODE_OFF"
    by (auto simp: hvac_mode_def hvac_mode_body_def get_power_value_def)
qed

text \<open>
  Four trees: power \<open>"00"\<close> over mode code \<open>"0200"\<close>, the empty tree, power \<open>"01"\<close> over
  \<open>"0200"\<close>, and power \<open>"01"\<close> over the unmapped code \<open>"FFFF"\<close>.
\<close>

theorem mode_off_precedence_witness:
  "drill (sample_tree (JStr ''00'') [leaf ''p_01'' (JStr ''0200'')]) ''e_A002'' 0 (JStr ''00'')
     = Inr (JStr ''00'')
   \<and> hvac_mode (sample_tree (JStr ''00'') [leaf ''p_01'' (JStr ''0200'')]) = PStr ''off''
   \<and> drill (JArr []) ''e_A002'' 0 (JStr ''00'') = Inl StopIteration
   \<and> hvac_mode (JArr []) = PStr ''off''
   \<and> drill (sample_tree (JStr ''01'') [leaf ''p_01'' (JStr ''0200'')]) ''e_3001'' 0 (JStr [])
     = Inr (JStr ''0200'')
   \<and> hvac_mode (sample_tree (JStr ''01'') [leaf ''p_01'' (JStr ''0200'')]) = PStr ''cool''
   \<and> map_of MODE_MAP ''FFFF'' = None
   \<and> hvac_mode (sample_tree (JStr ''01'') [leaf ''p_01'' (JStr ''FFFF'')]) = PStr ''off''"
proof -
  let ?off = "sample_tree (JStr ''00'') [leaf ''p_01'' (JStr ''0200'')]"
  let ?cool = "sample_tree (JStr ''01'') [leaf ''p_01'' (JStr ''0200'')]"
  let ?odd = "sample_tree (JStr ''01'') [leaf ''p_01'' (JStr ''FFFF'')]"
  have p0: "drill ?off ''e_A002'' 0 (JStr ''00'') = Inr (JStr ''00'')"
    by (rule drill_sample_power)
  have e0: "drill (JArr []) ''e_A002'' 0 (JStr ''00'') = Inl StopIteration"
    by (simp add: drill_def)
  have p1: "drill ?cool ''e_A002'' 0 (JStr ''00'') = Inr (JStr ''01'')"
    by (rule drill_sample_power)
  have m1: "drill ?cool ''e_3001'' 0 (JStr []) = Inr (JStr ''0200'')"
    by (simp add: drill_sample_e_3001 leaf_def)
  have p2: "drill ?odd ''e_A002'' 0 (JStr ''00'') = Inr (JStr ''01'')"
    by (rule drill_sample_power)
  have m2: "drill ?odd ''e_3001'' 0 (JStr []) = Inr (JStr ''FFFF'')"
    by (simp add: drill_sample_e_3001 leaf_def)
  have u: "map_of MODE_MAP ''FFFF'' = None"
    by (simp add: MODE_MAP_def)
  have "hvac_mode ?off = PStr HVAC_MODE_OFF"
    using mode_off_precedence [of ?off] p0 by simp
  moreover have "hvac_mode (JArr []) = PStr HVAC_MODE_OFF"
    using mode_off_precedence [of "JArr []"] e0 by simp
  moreover have "hvac_mode ?cool = PStr HVAC_MODE_COOL"
    using mode_off_precedence [of ?cool] p1 m1 by simp
  moreover have "hvac_mode ?odd = PStr HVAC_MODE_OFF"
    using mode_off_precedence [of ?odd "JStr ''FFFF''"] p2 m2 u by simp
  ultimately show ?thesis
    using p0 e0 m1 u by (simp add: HVAC_MODE_OFF_def HVAC_MODE_COOL_def)
qed

section \<open>Unsupported control inputs\<close>

text \<open>
  Claim C5. Calling set-fan-mode with a label outside the seven known fan labels sends no
  HTTP write and asks for no refresh, and so does calling set-operation-mode with a mode
  that is neither \<open>off\<close> nor one of the five mapped modes: all either call does is log
  one warning, whatever the device would have answered.
\<close>

theorem unsupported_inputs_rejected:
  "(new_fan \<notin> set [''1'', ''2'', ''3'', ''4'', ''5'', ''Auto'', ''Quiet'']
      \<longrightarrow> async_set_fan_mode h new_fan put_result
            = [Log Warning ''Climate: fan_mode not supported'']
          \<and> filter is_write (async_set_fan_mode h new_fan put_result) = []
          \<and> filter is_refresh (async_set_fan_mode h new_fan put_result) = [])
   \<and> (new_mode \<noteq> HVAC_MODE_OFF
        \<and> new_mode \<notin> set [HVAC_MODE_AUTO, HVAC_MODE_COOL, HVAC_MODE_HEAT,
                           HVAC_MODE_FAN_ONLY, HVAC_MODE_DRY]
      \<longrightarrow> async_set_hvac_mode h new_mode put_result
            = [Log Warning ''Climate: unsupported hvac_mode'']
          \<and> filter is_write (async_set_hvac_mode h new_mode put_result) = []
          \<and> filter is_refresh (async_set_hvac_mode h new_mode put_result) = [])"
proof (intro conjI impI)
  assume "new_fan \<notin> set [''1'', ''2'', ''3'', ''4'', ''5'', ''Auto'', ''Quiet'']"
  then have r: "FAN_SPEED_REVERSE_MAP new_fan = None"
    by (rule fan_reverse_unknown)
  show "async_set_fan_mode h new_fan put_result
          = [Log Warning ''Climate: fan_mode not supported'']"
    by (simp add: async_set_fan_mode_def r)
  show "filter is_write (async_set_fan_mode h new_fan put_result) = []"
    by (simp add: async_set_fan_mode_def r)
  show "filter is_refresh (async_set_fan_mode h new_fan put_result) = []"
    by (simp add: async_set_fan_mode_def r)
next
  assume a: "new_mode \<noteq> HVAC_MODE_OFF
        \<and> new_mode \<notin> set [HVAC_MODE_AUTO, HVAC_MODE_COOL, HVAC_MODE_HEAT,
                           HVAC_MODE_FAN_ONLY, HVAC_MODE_DRY]"
  then have r: "MODE_REVERSE_MAP new_mode = None"
    by (simp add: mode_reverse_unknown)
  from a show "async_set_hvac_mode h new_mode put_result
                 = [Log Warning ''Climate: unsupported hvac_mode'']"
    by (simp add: async_set_hvac_mode_def r)
  from a show "filter is_write (async_set_hvac_mode h new_mode put_result) = []"
    by (simp add: async_set_hvac_mode_def r)
  from a show "filter is_refresh (async_set_hvac_mode h new_mode put_result) = []"
    by (simp add: async_set_hvac_mode_def r)
qed

text \<open>The fan label \<open>Turbo\<close> and the mode \<open>eco\<close>, with a device that would have answered.\<close>

theorem unsupported_inputs_rejected_witness:
  "''Turbo'' \<notin> set [''1'', ''2'', ''3'', ''4'', ''5'', ''Auto'', ''Quiet'']
   \<and> filter is_write (async_set_fan_mode ''10.0.0.5'' ''Turbo'' None) = []
   \<and> filter is_refresh (async_set_fan_mode ''10.0.0.5'' ''Turbo'' None) = []
   \<and> ''eco'' \<noteq> HVAC_MODE_OFF
   \<and> ''eco'' \<notin> set [HVAC_MODE_AUTO, HVAC_MODE_COOL, HVAC_MODE_HEAT,
                      HVAC_MODE_FAN_ONLY, HVAC_MODE_DRY]
   \<and> filter is_write (async_set_hvac_mode ''10.0.0.5'' ''eco'' None) = []
   \<and> filter is_refresh (async_set_hvac_mode ''10.0.0.5'' ''eco'' None) = []"
proof -
  have f: "''Turbo'' \<notin> set [''1'', ''2'', ''3'', ''4'', ''5'', ''Auto'', ''Quiet'']"
    by simp
  have m: "''eco'' \<noteq> HVAC_MODE_OFF
           \<and> ''eco'' \<notin> set [HVAC_MODE_AUTO, HVAC_MODE_COOL, HVAC_MODE_HEAT,
                              HVAC_MODE_FAN_ONLY, HVAC_MODE_DRY]"
    by (simp add: HVAC_MODE_OFF_def HVAC_MODE_AUTO_def HVAC_MODE_COOL_def HVAC_MODE_HEAT_def
          HVAC_MODE_FAN_ONLY_def HVAC_MODE_DRY_def)
  from f m unsupported_inputs_rejected [of "''Turbo''" "''10.0.0.5''" None "''eco''"]
  show ?thesis by blast
qed

section \<open>Connectivity probe of the configuration flow\<close>

text \<open>
  Claim C6. For every outcome of the probe \<open>GET http://<host>/\<close> on a submitted host: an
  entry is created if and only if the probe returned status 200, and it is then titled
  \<open>Daikin @ <host>\<close>; on any other status or a transport exception the form is shown again
  with the error \<open>base: cannot_connect\<close>, and no entry is created.
\<close>

theorem probe_gating:
  "((\<exists>title stored. async_step_user (Some h) p = CreateEntry title stored)
      \<longleftrightarrow> p = ProbeStatus 200)
   \<and> (p = ProbeStatus 200 \<longrightarrow> async_step_user (Some h) p = CreateEntry (''Daikin @ '' @ h) h)
   \<and> (p \<noteq> ProbeStatus 200 \<longrightarrow>
        async_step_user (Some h) p = ShowForm ''user'' [(''base'', ''cannot_connect'')])"
  by (cases p) (auto simp: async_step_user_def)

text \<open>Status 200, status 404 and a refused connection.\<close>

theorem probe_gating_witness:
  "async_step_user (Some ''10.0.0.5'') (ProbeStatus 200)
     = CreateEntry ''Daikin @ 10.0.0.5'' ''10.0.0.5''
   \<and> ProbeStatus 404 \<noteq> ProbeStatus 200
   \<and> async_step_user (Some ''10.0.0.5'') (ProbeStatus 404)
     = ShowForm ''user'' [(''base'', ''cannot_connect'')]
   \<and> ProbeRaised \<noteq> ProbeStatus 200
   \<and> async_step_user (Some ''10.0.0.5'') ProbeRaised
     = ShowForm ''user'' [(''base'', ''cannot_connect'')]"
  using probe_gating [of "''10.0.0.5''" "ProbeStatus 200"]
    probe_gating [of "''10.0.0.5''" "ProbeStatus 404"]
    probe_gating [of "''10.0.0.5''" ProbeRaised]
  by simp

section \<open>The fan map\<close>

text \<open>
  Claim C7. For every hex code of the Fan Map, its label looked up in the reversed map
  gives the hex code back. For a hex code that is not in the Fan Map, held by the leaf at
  \<open>e_1002 \<rightarrow> e_3001 \<rightarrow> child[8]\<close>, the telemetry fan-speed value is the text
  \<open>Unknown (<hex>)\<close> and the control entity's fan mode is no value.
\<close>

theorem fan_map_bijection:
  "(map_of FAN_SPEED_MAP hex = Some label \<longrightarrow> FAN_SPEED_REVERSE_MAP label = Some hex)
   \<and> (map_of FAN_SPEED_MAP hex = None
        \<and> navigate tree [''e_1002'', ''e_3001''] = Inr (JArr path)
        \<and> 8 < length path \<and> path ! 8 = JObj kvs \<and> map_of kvs ''pv'' = Some (JStr hex)
      \<longrightarrow> fan_speed_get_value tree = Inr (PStr (''Unknown ('' @ hex @ '')''))
          \<and> fan_mode tree = PNone)"
proof (intro conjI impI)
  assume "map_of FAN_SPEED_MAP hex = Some label"
  then have "(hex, label) \<in> set FAN_SPEED_MAP" by (rule map_of_SomeD)
  then show "FAN_SPEED_REVERSE_MAP label = Some hex"
    unfolding FAN_SPEED_MAP_def FAN_SPEED_REVERSE_MAP_def reverse_map_def
    by auto
next
  assume a: "map_of FAN_SPEED_MAP hex = None
        \<and> navigate tree [''e_1002'', ''e_3001''] = Inr (JArr path)
        \<and> 8 < length path \<and> path ! 8 = JObj kvs \<and> map_of kvs ''pv'' = Some (JStr hex)"
  then have g: "get_by_path tree [''e_1002'', ''e_3001''] = Inr (JArr path)"
    by (simp add: get_by_path_def)
  from a have "pv_at (JArr path) 8 = Inr (JStr hex)"
    by (simp add: pv_at_def)
  with a g show "fan_speed_get_value tree = Inr (PStr (''Unknown ('' @ hex @ '')''))"
    by (simp add: fan_speed_get_value_def sensor_fan_map_same)
next
  assume a: "map_of FAN_SPEED_MAP hex = None
        \<and> navigate tree [''e_1002'', ''e_3001''] = Inr (JArr path)
        \<and> 8 < length path \<and> path ! 8 = JObj kvs \<and> map_of kvs ''pv'' = Some (JStr hex)"
  then have "drill tree ''e_3001'' 8 (JStr []) = Inr (JStr hex)"
    by (simp add: drill_navigate)
  with a show "fan_mode tree = PNone"
    by (simp add: fan_mode_def)
qed

text \<open>
  The code \<open>0A00\<close> and its label \<open>Auto\<close>, and a tree whose ninth child of \<open>e_3001\<close>
  carries \<open>FFFF\<close>.
\<close>

theorem fan_map_bijection_witness:
  "map_of FAN_SPEED_MAP ''0A00'' = Some ''Auto''
   \<and> FAN_SPEED_REVERSE_MAP ''Auto'' = Some ''0A00''
   \<and> map_of FAN_SPEED_MAP ''FFFF'' = None
   \<and> fan_speed_get_value (sample_tree (JStr ''01'')
         (replicate 8 (leaf ''p_00'' (JStr ''00'')) @ [leaf ''p_0A'' (JStr ''FFFF'')]))
       = Inr (PStr ''Unknown (FFFF)'')
   \<and> fan_mode (sample_tree (JStr ''01'')
         (replicate 8 (leaf ''p_00'' (JStr ''00'')) @ [leaf ''p_0A'' (JStr ''FFFF'')]))
       = PNone"
proof -
  let ?cs = "replicate 8 (leaf ''p_00'' (JStr ''00'')) @ [leaf ''p_0A'' (JStr ''FFFF'')]"
  let ?t = "sample_tree (JStr ''01'') ?cs"
  have k: "map_of FAN_SPEED_MAP ''0A00'' = Some ''Auto''"
    by (simp add: FAN_SPEED_MAP_def)
  have r: "FAN_SPEED_REVERSE_MAP ''Auto'' = Some ''0A00''"
    using fan_map_bijection [of "''0A00''" "''Auto''"] k by simp
  have u: "map_of FAN_SPEED_MAP ''FFFF'' = None"
    by (simp add: FAN_SPEED_MAP_def)
  have n: "navigate ?t [''e_1002'', ''e_3001''] = Inr (JArr ?cs)"
    by (rule navigate_sample_e_3001)
  have c: "8 < length ?cs \<and> ?cs ! 8 = JObj [(''pn'', JStr ''p_0A''), (''pv'', JStr ''FFFF'')]"
    by (simp add: leaf_def nth_append)
  have "fan_speed_get_value ?t = Inr (PStr (''Unknown ('' @ ''FFFF'' @ '')'')) \<and> fan_mode ?t = PNone"
    using fan_map_bijection
      [of "''FFFF''" _ ?t ?cs "[(''pn'', JStr ''p_0A''), (''pv'', JStr ''FFFF'')]"] u n c
    by simp
  with k r u show ?thesis by simp
qed

section \<open>Path navigation\<close>

text \<open>
  Claim C8. For every tree and every requested path of any depth, path navigation returns
  a value and raises no exception; and if some segment's name is not found among the nodes
  at its level, the value returned is the empty sequence.
\<close>

theorem path_navigation_miss:
  "(\<exists>v. get_by_path tree segs = Inr v)
   \<and> (path_miss tree segs \<longrightarrow> get_by_path tree segs = Inr (JArr []))"
proof
  show "\<exists>v. get_by_path tree segs = Inr v" by (rule get_by_path_total)
  show "path_miss tree segs \<longrightarrow> get_by_path tree segs = Inr (JArr [])"
  proof
    assume "path_miss tree segs"
    then obtain e where e: "navigate tree segs = Inl e" using navigate_miss by blast
    with navigate_exn [OF e] show "get_by_path tree segs = Inr (JArr [])"
      by (auto simp: get_by_path_def)
  qed
qed

text \<open>
  A three-segment path whose first name is not in the tree, and one whose second name is
  missing one level down.
\<close>

theorem path_navigation_miss_witness:
  "path_miss (JArr [JObj [(''pn'', JStr ''e_1002''), (''pch'', JArr [])]])
     [''e_9999'', ''e_3001'', ''p_01'']
   \<and> get_by_path (JArr [JObj [(''pn'', JStr ''e_1002''), (''pch'', JArr [])]])
         [''e_9999'', ''e_3001'', ''p_01''] = Inr (JArr [])
   \<and> path_miss (JArr [JObj [(''pn'', JStr ''e_1002''), (''pch'', JArr [])]])
         [''e_1002'', ''e_3001'']
   \<and> get_by_path (JArr [JObj [(''pn'', JStr ''e_1002''), (''pch'', JArr [])]])
         [''e_1002'', ''e_3001''] = Inr (JArr [])"
proof -
  let ?t = "JArr [JObj [(''pn'', JStr ''e_1002''), (''pch'', JArr [])]]"
  have m1: "path_miss ?t [''e_9999'', ''e_3001'', ''p_01'']" by simp
  have m2: "path_miss ?t [''e_1002'', ''e_3001'']" by simp
  from m1 path_navigation_miss [of ?t "[''e_9999'', ''e_3001'', ''p_01'']"]
  have r1: "get_by_path ?t [''e_9999'', ''e_3001'', ''p_01''] = Inr (JArr [])" by blast
  from m2 path_navigation_miss [of ?t "[''e_1002'', ''e_3001'']"]
  have r2: "get_by_path ?t [''e_1002'', ''e_3001''] = Inr (JArr [])" by blast
  from m1 m2 r1 r2 show ?thesis by blast
qed

section \<open>One device record for both surfaces\<close>

text \<open>
  Claim C9. For every host, once both surfaces are set up for it, the device record the
  control entity reports equals the one the telemetry values report; its identifier is
  the pair of the domain and the telemetry polling loop's name \<open>DOMAIN-host\<close>.
\<close>

theorem device_identifier_shared:
  "sensor_async_setup_entry d h x = Inr (c, kinds)
   \<and> ent \<in> set (climate_async_setup_entry d h x')
   \<longrightarrow> climate_device_info d ent = sensor_device_info d c
       \<and> identifiers (climate_device_info d ent) = {(d, sensor_coordinator_name d h)}
       \<and> name c = sensor_coordinator_name d h"
  by (auto simp: sensor_async_setup_entry_def climate_async_setup_entry_def
        async_config_entry_first_refresh_def async_refresh_def new_coordinator_def
        climate_device_info_def sensor_device_info_def sensor_coordinator_name_def Let_def
      split: sum.splits if_splits)

text \<open>Both setups for host \<open>10.0.0.5\<close> against a device that answers with an empty tree.\<close>

theorem device_identifier_shared_witness:
  "sensor_async_setup_entry ''daikin_alira'' ''10.0.0.5''
       (Response 200 (Json (status_document [])))
     = Inr (\<lparr>name = ''daikin_alira-10.0.0.5'', data = JArr [], last_update_success = True\<rparr>,
            [Setpoint, IndoorTemp, IndoorHumidity, FanSpeed, Mode, Power])
   \<and> climate_async_setup_entry ''daikin_alira'' ''10.0.0.5''
       (Response 200 (Json (status_document []))) = [\<lparr>host = ''10.0.0.5''\<rparr>]
   \<and> identifiers (climate_device_info ''daikin_alira'' \<lparr>host = ''10.0.0.5''\<rparr>)
     = {(''daikin_alira'', ''daikin_alira-10.0.0.5'')}
   \<and> climate_device_info ''daikin_alira'' \<lparr>host = ''10.0.0.5''\<rparr>
     = sensor_device_info ''daikin_alira''
         \<lparr>name = ''daikin_alira-10.0.0.5'', data = JArr [], last_update_success = True\<rparr>"
proof -
  let ?x = "Response 200 (Json (status_document []))"
  let ?c = "\<lparr>name = ''daikin_alira-10.0.0.5'', data = JArr [], last_update_success = True\<rparr>"
  have f: "fetch_status ?x = Inr (JArr [])"
    by (simp add: fetch_status_success)
  have s: "sensor_async_setup_entry ''daikin_alira'' ''10.0.0.5'' ?x
             = Inr (?c, [Setpoint, IndoorTemp, IndoorHumidity, FanSpeed, Mode, Power])"
    by (simp add: sensor_async_setup_entry_def f async_config_entry_first_refresh_def
          async_refresh_def new_coordinator_def sensor_coordinator_name_def)
  have e: "climate_async_setup_entry ''daikin_alira'' ''10.0.0.5'' ?x = [\<lparr>host = ''10.0.0.5''\<rparr>]"
    by (simp add: climate_async_setup_entry_def f async_config_entry_first_refresh_def
          async_refresh_def new_coordinator_def)
  have i: "sensor_coordinator_name ''daikin_alira'' ''10.0.0.5'' = ''daikin_alira-10.0.0.5''"
    by (simp add: sensor_coordinator_name_def)
  have m: "\<lparr>host = ''10.0.0.5''\<rparr> \<in> set (climate_async_setup_entry ''daikin_alira'' ''10.0.0.5'' ?x)"
    by (simp add: e)
  from s m device_identifier_shared
    [of "''daikin_alira''" "''10.0.0.5''" ?x ?c
        "[Setpoint, IndoorTemp, IndoorHumidity, FanSpeed, Mode, Power]"
        "\<lparr>host = ''10.0.0.5''\<rparr>" ?x]
  have "climate_device_info ''daikin_alira'' \<lparr>host = ''10.0.0.5''\<rparr>
          = sensor_device_info ''daikin_alira'' ?c
        \<and> identifiers (climate_device_info ''daikin_alira'' \<lparr>host = ''10.0.0.5''\<rparr>)
          = {(''daikin_alira'', sensor_coordinator_name ''daikin_alira'' ''10.0.0.5'')}"
    by blast
  with s e show ?thesis
    unfolding i by blast
qed

section \<open>The empty payload\<close>

text \<open>
  Claim C10. Decoding the empty hex string succeeds and yields 0 divided by the scale, that
  is 0, for every scale one can divide by; it is not an absent value. Consequently, for
  every tree in which the leaf at \<open>e_1002 \<rightarrow> e_3001 \<rightarrow> child[2]\<close> exists but has no
  \<open>pv\<close>, the setpoint value and the control entity's target temperature are 0 rather than
  no value.
\<close>

theorem empty_hex_decodes_to_zero:
  "(scale \<noteq> 0 \<longrightarrow> decode_hex (JStr []) scale = Inr (0 / of_int scale)
                  \<and> parse_hex_to_int (JStr []) scale = PNum 0)
   \<and> (navigate tree [''e_1002'', ''e_3001''] = Inr (JArr path)
        \<and> 2 < length path \<and> path ! 2 = JObj kvs \<and> map_of kvs ''pv'' = None
      \<longrightarrow> setpoint_get_value tree = Inr (PNum 0) \<and> target_temperature tree = PNum 0)"
proof (intro conjI impI)
  assume "scale \<noteq> 0"
  then show "decode_hex (JStr []) scale = Inr (0 / of_int scale)" by simp
next
  assume "scale \<noteq> 0"
  then show "parse_hex_to_int (JStr []) scale = PNum 0"
    by (simp add: parse_hex_to_int_def)
next
  assume a: "navigate tree [''e_1002'', ''e_3001''] = Inr (JArr path)
        \<and> 2 < length path \<and> path ! 2 = JObj kvs \<and> map_of kvs ''pv'' = None"
  then have g: "get_by_path tree [''e_1002'', ''e_3001''] = Inr (JArr path)"
    by (simp add: get_by_path_def)
  from a have "pv_at (JArr path) 2 = Inr (JStr [])"
    by (simp add: pv_at_def)
  with a g show "setpoint_get_value tree = Inr (PNum 0)"
    by (simp add: setpoint_get_value_def parse_hex_to_int_def)
next
  assume a: "navigate tree [''e_1002'', ''e_3001''] = Inr (JArr path)
        \<and> 2 < length path \<and> path ! 2 = JObj kvs \<and> map_of kvs ''pv'' = None"
  then have "drill tree ''e_3001'' 2 (JStr []) = Inr (JStr [])"
    by (simp add: drill_navigate)
  then show "target_temperature tree = PNum 0"
    by (simp add: target_temperature_def)
qed

text \<open>Scale 2, and a tree whose third child of \<open>e_3001\<close> is \<open>{"pn": "p_03"}\<close>.\<close>

theorem empty_hex_decodes_to_zero_witness:
  "(2 :: int) \<noteq> 0 \<and> parse_hex_to_int (JStr []) 2 = PNum 0
   \<and> navigate (sample_tree (JStr ''01'')
         [leaf ''p_01'' (JStr ''0200''), leaf ''p_02'' (JStr ''00''),
          JObj [(''pn'', JStr ''p_03'')]]) [''e_1002'', ''e_3001'']
       = Inr (JArr [leaf ''p_01'' (JStr ''0200''), leaf ''p_02'' (JStr ''00''),
                    JObj [(''pn'', JStr ''p_03'')]])
   \<and> setpoint_get_value (sample_tree (JStr ''01'')
         [leaf ''p_01'' (JStr ''0200''), leaf ''p_02'' (JStr ''00''),
          JObj [(''pn'', JStr ''p_03'')]]) = Inr (PNum 0)
   \<and> target_temperature (sample_tree (JStr ''01'')
         [leaf ''p_01'' (JStr ''0200''), leaf ''p_02'' (JStr ''00''),
          JObj [(''pn'', JStr ''p_03'')]]) = PNum 0"
proof -
  let ?cs = "[leaf ''p_01'' (JStr ''0200''), leaf ''p_02'' (JStr ''00''),
              JObj [(''pn'', JStr ''p_03'')]]"
  let ?t = "sample_tree (JStr ''01'') ?cs"
  have n: "navigate ?t [''e_1002'', ''e_3001''] = Inr (JArr ?cs)"
    by (rule navigate_sample_e_3001)
  have s: "parse_hex_to_int (JStr []) 2 = PNum 0"
    using empty_hex_decodes_to_zero [of 2] by simp
  have "setpoint_get_value ?t = Inr (PNum 0) \<and> target_temperature ?t = PNum 0"
    using empty_hex_decodes_to_zero [of 2 ?t ?cs "[(''pn'', JStr ''p_03'')]"] n by simp
  with n s show ?thesis by simp
qed

end
